theory Spec2Isabelle
  imports Complex_Main
begin

section \<open>Run-time values\<close>

text \<open>
  The validators receive values of TypeScript type \<open>unknown\<close>. A value is modelled by
  its run-time shape: the primitive values, Date instants, arrays, and plain objects given
  by their own enumerable entries in enumeration order (the prototype of a plain object
  is \<open>Object.prototype\<close>). A string is the list of its code units, restricted to
  the range U+0000 to U+00FF. Functions and symbols are opaque.
\<close>

datatype number = NaN | PosInfinity | NegInfinity | Finite real

datatype jsval =
    JUndefined
  | JNull
  | JBool bool
  | JNum number
  | JStr string
  | JBigInt int
  | JSymbol
  | JFunction
  | JDate number
  | JArray "jsval list"
  | JObject "(string \<times> jsval) list"

fun typeof :: "jsval \<Rightarrow> string" where
  "typeof JUndefined = ''undefined''"
| "typeof JNull = ''object''"
| "typeof (JBool b) = ''boolean''"
| "typeof (JNum n) = ''number''"
| "typeof (JStr s) = ''string''"
| "typeof (JBigInt i) = ''bigint''"
| "typeof JSymbol = ''symbol''"
| "typeof JFunction = ''function''"
| "typeof (JDate t) = ''object''"
| "typeof (JArray xs) = ''object''"
| "typeof (JObject kvs) = ''object''"

text \<open>\<open>truthy v\<close> is the outcome of \<open>!!v\<close>; the source writes \<open>!v\<close> for its negation.\<close>

fun truthy :: "jsval \<Rightarrow> bool" where
  "truthy JUndefined = False"
| "truthy JNull = False"
| "truthy (JBool b) = b"
| "truthy (JNum n) = (n \<noteq> NaN \<and> n \<noteq> Finite 0)"
| "truthy (JStr s) = (s \<noteq> [])"
| "truthy (JBigInt i) = (i \<noteq> 0)"
| "truthy JSymbol = True"
| "truthy JFunction = True"
| "truthy (JDate t) = True"
| "truthy (JArray xs) = True"
| "truthy (JObject kvs) = True"

text \<open>The global \<open>isNaN\<close>, applied by the source to values whose \<open>typeof\<close> is \<open>number\<close>.\<close>

fun isNaN :: "jsval \<Rightarrow> bool" where
  "isNaN (JNum n) = (n = NaN)"
| "isNaN v = False"

fun isArray :: "jsval \<Rightarrow> bool" where
  "isArray (JArray xs) = True"
| "isArray v = False"

fun instanceofDate :: "jsval \<Rightarrow> bool" where
  "instanceofDate (JDate t) = True"
| "instanceofDate v = False"

text \<open>The elements of an array value, for \<open>every\<close>, \<open>filter\<close> and \<open>length\<close>.\<close>

fun elements :: "jsval \<Rightarrow> jsval list" where
  "elements (JArray xs) = xs"
| "elements v = []"

text \<open>
  \<open>field v k\<close> is the property read \<open>v.k\<close> for the fixed keys the source reads
  (\<open>databaseId\<close>, \<open>properties\<close>, \<open>type\<close>, \<open>format\<close>, \<open>options\<close>, \<open>id\<close>,
  \<open>name\<close>): none of them is defined by a built-in prototype, so the read yields the
  own entry or \<open>undefined\<close>. The source reads a field only after it has found the
  value to be a non-null object. \<open>hasField\<close> is \<open>k in v\<close> for the same keys.
\<close>

fun field :: "jsval \<Rightarrow> string \<Rightarrow> jsval" where
  "field (JObject kvs) k = (case map_of kvs k of Some v \<Rightarrow> v | None \<Rightarrow> JUndefined)"
| "field v k = JUndefined"

fun hasField :: "jsval \<Rightarrow> string \<Rightarrow> bool" where
  "hasField (JObject kvs) k = (map_of kvs k \<noteq> None)"
| "hasField v k = False"

text \<open>\<open>options.includes(v)\<close> for a list of option strings.\<close>

definition array_includes :: "string list \<Rightarrow> jsval \<Rightarrow> bool" where
  "array_includes options v = (v \<in> set (map JStr options))"

section \<open>Regular expressions\<close>

text \<open>
  The regular expressions of the source are written as terms of \<open>regex\<close> and run by
  derivatives. \<open>regex_test r s\<close> is \<open>/^r$/.test(s)\<close>: without the multiline flag
  \<open>^\<close> and \<open>$\<close> match only at the two ends of the input.
\<close>

datatype regex =
    Fail
  | Eps
  | Chr "char \<Rightarrow> bool"
  | Cat regex regex
  | Or regex regex
  | Many regex

fun nullable :: "regex \<Rightarrow> bool" where
  "nullable Fail = False"
| "nullable Eps = True"
| "nullable (Chr p) = False"
| "nullable (Cat r s) = (nullable r \<and> nullable s)"
| "nullable (Or r s) = (nullable r \<or> nullable s)"
| "nullable (Many r) = True"

fun cat :: "regex \<Rightarrow> regex \<Rightarrow> regex" where
  "cat Fail s = Fail"
| "cat Eps s = s"
| "cat r s = Cat r s"

fun either :: "regex \<Rightarrow> regex \<Rightarrow> regex" where
  "either Fail s = s"
| "either r Fail = r"
| "either r s = Or r s"

fun step :: "char \<Rightarrow> regex \<Rightarrow> regex" where
  "step c Fail = Fail"
| "step c Eps = Fail"
| "step c (Chr p) = (if p c then Eps else Fail)"
| "step c (Cat r s) =
     (if nullable r then either (cat (step c r) s) (step c s) else cat (step c r) s)"
| "step c (Or r s) = either (step c r) (step c s)"
| "step c (Many r) = cat (step c r) (Many r)"

definition regex_test :: "regex \<Rightarrow> string \<Rightarrow> bool" where
  "regex_test r s = nullable (fold step s r)"

definition plus :: "regex \<Rightarrow> regex" where
  "plus r = Cat r (Many r)"

fun repeat :: "nat \<Rightarrow> regex \<Rightarrow> regex" where
  "repeat 0 r = Eps"
| "repeat (Suc n) r = Cat r (repeat n r)"

definition anything :: regex where
  "anything = Many (Chr (\<lambda>c. True))"

text \<open>
  What a regular expression matches, as a set of strings; the matcher is shown below to
  decide exactly this set.
\<close>

definition conc :: "string set \<Rightarrow> string set \<Rightarrow> string set" where
  "conc A B = {u @ v | u v. u \<in> A \<and> v \<in> B}"

inductive_set star :: "string set \<Rightarrow> string set" for A :: "string set" where
  star_empty: "[] \<in> star A"
| star_more: "u \<in> A \<Longrightarrow> v \<in> star A \<Longrightarrow> u @ v \<in> star A"

fun lang :: "regex \<Rightarrow> string set" where
  "lang Fail = {}"
| "lang Eps = {[]}"
| "lang (Chr p) = {[c] | c. p c}"
| "lang (Cat r s) = conc (lang r) (lang s)"
| "lang (Or r s) = lang r \<union> lang s"
| "lang (Many r) = star (lang r)"

text \<open>The class \<open>\s\<close> on the modelled code units, and the classes of the source.\<close>

definition whitespace :: "char list" where
  "whitespace = [CHR 0x09, CHR 0x0A, CHR 0x0B, CHR 0x0C, CHR 0x0D, CHR '' '', CHR 0xA0]"

definition letters :: "char list" where
  "letters = ''abcdefghijklmnopqrstuvwxyzABCDEFGHIJKLMNOPQRSTUVWXYZ''"

definition digits :: "char list" where
  "digits = ''0123456789''"

text \<open>\<open>s.trim()\<close> removes the white space at both ends.\<close>

definition trim :: "string \<Rightarrow> string" where
  "trim s = rev (dropWhile (\<lambda>c. c \<in> set whitespace) (rev (dropWhile (\<lambda>c. c \<in> set whitespace) s)))"

section \<open>Template literals\<close>

text \<open>
  \<open>quote s\<close> is \<open>'${s}'\<close> for a string, \<open>show_int\<close> the decimal
  text of an integer (the numbers of a configuration are taken to be integers), and
  \<open>join\<close> is \<open>Array.prototype.join\<close> on strings. Interpolating a value that is not
  known to be a string is the platform's conversion to string, which throws
  \<open>TypeError\<close> for some values; it is the parameter \<open>to_string\<close>.
\<close>

definition quote :: "string \<Rightarrow> string" where
  "quote s = [CHR 0x27] @ s @ [CHR 0x27]"

fun show_nat :: "nat \<Rightarrow> string" where
  "show_nat n = (if n < 10 then [digits ! n] else show_nat (n div 10) @ [digits ! (n mod 10)])"

declare show_nat.simps [simp del]

definition show_int :: "int \<Rightarrow> string" where
  "show_int i = (if i < 0 then ''-'' @ show_nat (nat (- i)) else show_nat (nat i))"

fun join :: "string \<Rightarrow> string list \<Rightarrow> string" where
  "join sep [] = []"
| "join sep [x] = x"
| "join sep (x # y # ys) = x @ sep @ join sep (y # ys)"

section \<open>Property and schema definitions (types/core.ts)\<close>

datatype NumberFormat = FormatNumber | FormatPercent | FormatDollar

datatype PropertyDefinition =
    Title
  | RichText
  | Number "NumberFormat option"
  | Checkbox
  | Date
  | Url
  | Email
  | Select "string list"
  | MultiSelect "string list"
  | People

text \<open>The discriminant \<open>definition.type\<close>.\<close>

fun type_tag :: "PropertyDefinition \<Rightarrow> string" where
  "type_tag Title = ''title''"
| "type_tag RichText = ''rich_text''"
| "type_tag (Number fmt) = ''number''"
| "type_tag Checkbox = ''checkbox''"
| "type_tag Date = ''date''"
| "type_tag Url = ''url''"
| "type_tag Email = ''email''"
| "type_tag (Select options) = ''select''"
| "type_tag (MultiSelect options) = ''multi_select''"
| "type_tag People = ''people''"

text \<open>
  A schema literal. The \<open>properties\<close> object is the list of its own entries in
  enumeration order.
\<close>

record SchemaDefinition =
  databaseId :: string
  properties :: "(string \<times> PropertyDefinition) list"

text \<open>The run-time value of a typed literal.\<close>

fun format_tag :: "NumberFormat \<Rightarrow> string" where
  "format_tag FormatNumber = ''number''"
| "format_tag FormatPercent = ''percent''"
| "format_tag FormatDollar = ''dollar''"

fun js_of_property :: "PropertyDefinition \<Rightarrow> jsval" where
  "js_of_property (Number (Some f)) =
     JObject [(''type'', JStr ''number''), (''format'', JStr (format_tag f))]"
| "js_of_property (Select options) =
     JObject [(''type'', JStr ''select''), (''options'', JArray (map JStr options))]"
| "js_of_property (MultiSelect options) =
     JObject [(''type'', JStr ''multi_select''), (''options'', JArray (map JStr options))]"
| "js_of_property d = JObject [(''type'', JStr (type_tag d))]"

definition js_of_schema :: "SchemaDefinition \<Rightarrow> jsval" where
  "js_of_schema schema =
     JObject [(''databaseId'', JStr (databaseId schema)),
              (''properties'', JObject (map (\<lambda>(name, d). (name, js_of_property d)) (properties schema)))]"

section \<open>Typed errors (errors/index.ts)\<close>

text \<open>
  An error is its class and its context object. \<open>ValiError\<close> is what the validation
  library's \<open>parse\<close> throws and \<open>TypeError\<close> what the platform throws; both are
  instances of \<open>Error\<close>.
\<close>

datatype error =
    SchemaValidationError string string jsval
  | PropertyAccessError string string
  | PropertyValidationError string jsval string
  | SelectionValidationError string jsval "string list"
  | ValiError
  | TypeError

fun code :: "error \<Rightarrow> string" where
  "code (SchemaValidationError property expected received) = ''SCHEMA_VALIDATION_ERROR''"
| "code (PropertyAccessError property schema) = ''PROPERTY_ACCESS_ERROR''"
| "code (PropertyValidationError property v expectedType) = ''PROPERTY_VALIDATION_ERROR''"
| "code (SelectionValidationError property v validOptions) = ''SELECTION_VALIDATION_ERROR''"
| "code ValiError = ''ValiError''"
| "code TypeError = ''TypeError''"

section \<open>Value validation (schema/validator.ts)\<close>

definition emailRegex :: regex where
  "emailRegex =
     Cat (plus (Chr (\<lambda>c. c \<notin> set whitespace \<and> c \<noteq> CHR ''@'')))
    (Cat (Chr (\<lambda>c. c = CHR ''@''))
    (Cat (plus (Chr (\<lambda>c. c \<notin> set whitespace \<and> c \<noteq> CHR ''@'')))
    (Cat (Chr (\<lambda>c. c = CHR ''.''))
         (plus (Chr (\<lambda>c. c \<notin> set whitespace \<and> c \<noteq> CHR ''@''))))))"

definition isValidEmail :: "string \<Rightarrow> bool" where
  "isValidEmail email = (regex_test emailRegex email \<and> length email \<le> 254)"

text \<open>
  \<open>new URL(url)\<close> is the platform's parser. It is the parameter \<open>url_protocol\<close>:
  \<open>None\<close> where the constructor throws, otherwise the \<open>protocol\<close> of the parsed URL.
\<close>

definition isValidURL :: "(string \<Rightarrow> string option) \<Rightarrow> string \<Rightarrow> bool" where
  "isValidURL url_protocol url =
     (case url_protocol url of
        None \<Rightarrow> False
      | Some protocol \<Rightarrow> protocol = ''http:'' \<or> protocol = ''https:'')"

definition isValidNotionUser :: "jsval \<Rightarrow> bool" where
  "isValidNotionUser user =
     (if \<not> truthy user \<or> typeof user \<noteq> ''object'' then False
      else (typeof (field user ''id'') = ''string'' \<and>
            (case field user ''id'' of JStr s \<Rightarrow> length s > 0 | _ \<Rightarrow> False) \<and>
            (field user ''name'' = JNull \<or> field user ''name'' = JUndefined \<or>
               typeof (field user ''name'') = ''string'') \<and>
            (field user ''type'' = JStr ''person'' \<or> field user ''type'' = JStr ''bot'')))"

definition validatePropertyValue ::
  "(string \<Rightarrow> string option) \<Rightarrow> jsval \<Rightarrow> PropertyDefinition \<Rightarrow> string \<Rightarrow> error + unit" where
  "validatePropertyValue url_protocol v definition propertyName =
     (if v = JNull \<or> v = JUndefined then Inr ()
      else case definition of
        Title \<Rightarrow>
          if typeof v \<noteq> ''string'' then Inl (PropertyValidationError propertyName v ''string'')
          else Inr ()
      | RichText \<Rightarrow>
          if typeof v \<noteq> ''string'' then Inl (PropertyValidationError propertyName v ''string'')
          else Inr ()
      | Email \<Rightarrow>
          if typeof v \<noteq> ''string'' then Inl (PropertyValidationError propertyName v ''string'')
          else if \<not> (case v of JStr s \<Rightarrow> isValidEmail s | _ \<Rightarrow> False)
            then Inl (PropertyValidationError propertyName v ''valid email address'')
          else Inr ()
      | Url \<Rightarrow>
          if typeof v \<noteq> ''string'' then Inl (PropertyValidationError propertyName v ''string'')
          else if \<not> (case v of JStr s \<Rightarrow> isValidURL url_protocol s | _ \<Rightarrow> False)
            then Inl (PropertyValidationError propertyName v ''valid URL'')
          else Inr ()
      | Number fmt \<Rightarrow>
          if typeof v \<noteq> ''number'' \<or> isNaN v
            then Inl (PropertyValidationError propertyName v ''number'')
          else Inr ()
      | Checkbox \<Rightarrow>
          if typeof v \<noteq> ''boolean'' then Inl (PropertyValidationError propertyName v ''boolean'')
          else Inr ()
      | Date \<Rightarrow>
          if \<not> instanceofDate v then Inl (PropertyValidationError propertyName v ''Date'')
          else Inr ()
      | Select options \<Rightarrow>
          if typeof v \<noteq> ''string'' then Inl (PropertyValidationError propertyName v ''string'')
          else if \<not> array_includes options v
            then Inl (SelectionValidationError propertyName v options)
          else Inr ()
      | MultiSelect options \<Rightarrow>
          if \<not> isArray v then Inl (PropertyValidationError propertyName v ''string[]'')
          else if \<not> list_all (\<lambda>x. typeof x = ''string'') (elements v)
            then Inl (PropertyValidationError propertyName v ''string[]'')
          else (let invalidValues = filter (\<lambda>x. \<not> array_includes options x) (elements v)
                in if length invalidValues > 0
                   then Inl (SelectionValidationError propertyName (hd invalidValues) options)
                   else Inr ())
      | People \<Rightarrow>
          if \<not> isArray v then Inl (PropertyValidationError propertyName v ''NotionUser[]'')
          else if \<not> list_all isValidNotionUser (elements v)
            then Inl (PropertyValidationError propertyName v ''array of valid NotionUser objects'')
          else Inr ())"

section \<open>Creation-time validation (schema/validation.ts)\<close>

text \<open>
  The schemas of the validation library are modelled by what its \<open>parse\<close> decides:
  it returns when every schema and every \<open>check\<close> of the pipeline holds and throws
  \<open>ValiError\<close> otherwise. A typed literal already has the shape that \<open>object\<close>,
  \<open>variant\<close>, \<open>literal\<close>, \<open>picklist\<close>, \<open>optional\<close>, \<open>array\<close> and
  \<open>string\<close> ask for, so what remains are the pipeline's length, pattern and
  \<open>check\<close> actions.

  The library's \<open>record\<close> schema does not visit every entry: to keep prototypes
  safe it passes over the own keys \<open>__proto__\<close>, \<open>prototype\<close> and
  \<open>constructor\<close>. Such an entry is neither checked against the value schema nor
  copied into the parsed record, and the \<open>check\<close> actions of the pipeline run on the
  parsed record. \<open>record_entries\<close> is the parsed record. The key schema is
  \<open>string()\<close>, which every key satisfies. \<open>new Set(options).size\<close> is the number of
  distinct options.
\<close>

definition blocked_keys :: "string list" where
  "blocked_keys = [''__proto__'', ''prototype'', ''constructor'']"

definition record_entries :: "(string \<times> 'a) list \<Rightarrow> (string \<times> 'a) list" where
  "record_entries entries = filter (\<lambda>(key, v). key \<notin> set blocked_keys) entries"

definition databaseIdRegex :: regex where
  "databaseIdRegex = repeat 36 (Chr (\<lambda>c. c \<in> set ''abcdef0123456789-''))"

fun propertyDefinitionSchema :: "PropertyDefinition \<Rightarrow> bool" where
  "propertyDefinitionSchema (Select options) =
     (length options > 0 \<and> length (remdups options) = length options)"
| "propertyDefinitionSchema (MultiSelect options) =
     (length options > 0 \<and> length (remdups options) = length options)"
| "propertyDefinitionSchema d = True"

definition schemaDefinitionSchema :: "SchemaDefinition \<Rightarrow> bool" where
  "schemaDefinitionSchema schema =
     ((length (databaseId schema) \<ge> 1 \<and> regex_test databaseIdRegex (databaseId schema)) \<and>
      (list_all (\<lambda>(name, prop). propertyDefinitionSchema prop)
         (record_entries (properties schema)) \<and>
       length (map fst (record_entries (properties schema))) > 0 \<and>
       length (map fst (record_entries (properties schema))) \<le> 20 \<and>
       length (filter (\<lambda>prop. type_tag prop = ''title'')
                 (map snd (record_entries (properties schema)))) = 1))"

definition validateSchemaDefinition :: "SchemaDefinition \<Rightarrow> error + SchemaDefinition" where
  "validateSchemaDefinition schema =
     (if schemaDefinitionSchema schema then Inr schema else Inl ValiError)"

section \<open>The typed schema handle (schema/typed-schema.ts)\<close>

text \<open>
  The constructor reads the clock for \<open>_createdAt\<close>; the reading is the parameter
  \<open>now\<close>. Every error value of the model is an instance of \<open>Error\<close>, so the
  \<open>catch\<close> clause rethrows each failure of the validation as a
  \<open>SchemaValidationError\<close> whose \<open>received\<close> is the literal.
\<close>

record TypedSchema =
  schema_definition :: SchemaDefinition
  createdAt :: int
  lastQueryDuration :: number

definition new_TypedSchema :: "int \<Rightarrow> SchemaDefinition \<Rightarrow> error + TypedSchema" where
  "new_TypedSchema now defn =
     (case validateSchemaDefinition defn of
        Inl e \<Rightarrow> Inl (SchemaValidationError ''schema'' ''valid schema definition'' (js_of_schema defn))
      | Inr parsed \<Rightarrow>
          Inr \<lparr>schema_definition = defn, createdAt = now, lastQueryDuration = Finite 0\<rparr>)"

definition createTypedSchema :: "int \<Rightarrow> SchemaDefinition \<Rightarrow> error + TypedSchema" where
  "createTypedSchema now defn = new_TypedSchema now defn"

definition propertyNames :: "TypedSchema \<Rightarrow> string list" where
  "propertyNames h = map fst (properties (schema_definition h))"

text \<open>
  \<open>name in object\<close> holds for the own keys of the object and for the keys it
  inherits. A schema literal's \<open>properties\<close> is a plain object, which inherits the
  members of \<open>Object.prototype\<close>; reading an inherited key yields that member.
\<close>

definition object_prototype_keys :: "string list" where
  "object_prototype_keys =
     [''constructor'', ''__defineGetter__'', ''__defineSetter__'', ''hasOwnProperty'',
      ''__lookupGetter__'', ''__lookupSetter__'', ''isPrototypeOf'', ''propertyIsEnumerable'',
      ''toString'', ''valueOf'', ''__proto__'', ''toLocaleString'']"

definition js_in :: "string \<Rightarrow> (string \<times> 'a) list \<Rightarrow> bool" where
  "js_in k entries = (k \<in> set (map fst entries) \<or> k \<in> set object_prototype_keys)"

datatype property_value = Declared PropertyDefinition | ObjectPrototypeMember string

definition hasProperty :: "TypedSchema \<Rightarrow> string \<Rightarrow> bool" where
  "hasProperty h propertyName = js_in propertyName (properties (schema_definition h))"

definition getProperty :: "TypedSchema \<Rightarrow> string \<Rightarrow> error + property_value" where
  "getProperty h propertyName =
     (if \<not> hasProperty h propertyName
      then Inl (PropertyAccessError propertyName (databaseId (schema_definition h)))
      else Inr (case map_of (properties (schema_definition h)) propertyName of
                  Some d \<Rightarrow> Declared d
                | None \<Rightarrow> ObjectPrototypeMember propertyName))"

definition getPropertiesByType :: "TypedSchema \<Rightarrow> string \<Rightarrow> (string \<times> PropertyDefinition) list" where
  "getPropertiesByType h t =
     filter (\<lambda>(name, d). type_tag d = t) (properties (schema_definition h))"

definition getTitleProperty :: "TypedSchema \<Rightarrow> error + (string \<times> PropertyDefinition)" where
  "getTitleProperty h =
     (let titleEntries =
            filter (\<lambda>(name, d). type_tag d = ''title'') (properties (schema_definition h))
      in if length titleEntries = 0
         then Inl (SchemaValidationError ''titleProperty'' ''exactly one title property''
                     (JStr ''none found''))
         else if length titleEntries > 1
         then Inl (SchemaValidationError ''titleProperty'' ''exactly one title property''
                     (JStr (show_nat (length titleEntries) @ '' found'')))
         else Inr (hd titleEntries))"

text \<open>
  The predicate returned by \<open>createPropertyValidator\<close>, applied to a name and a value.
  A member of \<open>Object.prototype\<close> has no \<open>type\<close>, which is the \<open>default\<close> branch
  of the \<open>switch\<close>.
\<close>

definition createPropertyValidator :: "TypedSchema \<Rightarrow> string \<Rightarrow> jsval \<Rightarrow> error + bool" where
  "createPropertyValidator h propertyName v =
     (case getProperty h propertyName of
        Inl e \<Rightarrow> Inl e
      | Inr propDef \<Rightarrow>
          if v = JNull \<or> v = JUndefined then Inr True
          else (case propDef of
                  ObjectPrototypeMember k \<Rightarrow> Inr False
                | Declared d \<Rightarrow>
                    Inr (case d of
                           Title \<Rightarrow> typeof v = ''string''
                         | RichText \<Rightarrow> typeof v = ''string''
                         | Url \<Rightarrow> typeof v = ''string''
                         | Email \<Rightarrow> typeof v = ''string''
                         | Number fmt \<Rightarrow> typeof v = ''number'' \<and> \<not> isNaN v
                         | Checkbox \<Rightarrow> typeof v = ''boolean''
                         | Date \<Rightarrow> instanceofDate v
                         | Select options \<Rightarrow>
                             if typeof v = ''string'' then array_includes options v else False
                         | MultiSelect options \<Rightarrow>
                             if isArray v
                             then list_all (\<lambda>x. typeof x = ''string'' \<and> array_includes options x)
                                    (elements v)
                             else False
                         | People \<Rightarrow> isArray v)))"

section \<open>Structural validation (schema/validator.ts)\<close>

text \<open>\<open>Object.entries\<close> of a non-null object: an array's entries are its indices.\<close>

fun object_entries :: "jsval \<Rightarrow> (string \<times> jsval) list" where
  "object_entries (JObject kvs) = kvs"
| "object_entries (JArray xs) = zip (map show_nat [0..<length xs]) xs"
| "object_entries v = []"

record ValidationResult =
  isValid :: bool
  errors :: "string list"

record ValidationConfig =
  maxProperties :: int
  minProperties :: int
  requireTitle :: bool
  allowMultipleTitles :: bool

definition DEFAULT_VALIDATION_CONFIG :: ValidationConfig where
  "DEFAULT_VALIDATION_CONFIG =
     \<lparr>maxProperties = 20, minProperties = 1, requireTitle = True, allowMultipleTitles = False\<rparr>"

definition validTypes :: "string list" where
  "validTypes = [''title'', ''rich_text'', ''number'', ''checkbox'', ''date'',
                 ''url'', ''email'', ''select'', ''multi_select'', ''people'']"

definition isPropertyDefinition :: "jsval \<Rightarrow> bool" where
  "isPropertyDefinition v =
     (if \<not> truthy v \<or> typeof v \<noteq> ''object'' then False
      else if \<not> truthy (field v ''type'') \<or> typeof (field v ''type'') \<noteq> ''string'' then False
      else array_includes validTypes (field v ''type''))"

definition isValidDatabaseId :: "string \<Rightarrow> bool" where
  "isValidDatabaseId ident = regex_test databaseIdRegex ident"

definition isValidNumberFormat :: "jsval \<Rightarrow> bool" where
  "isValidNumberFormat format =
     (format = JStr ''number'' \<or> format = JStr ''percent'' \<or> format = JStr ''dollar'')"

definition startsWithLetterRegex :: regex where
  "startsWithLetterRegex = Cat (Chr (\<lambda>c. c \<in> set letters)) anything"

definition propertyNameRegex :: regex where
  "propertyNameRegex =
     Cat (Chr (\<lambda>c. c \<in> set letters))
         (Many (Chr (\<lambda>c. c \<in> set letters \<or> c \<in> set digits \<or> c = CHR ''_'' \<or> c \<in> set whitespace)))"

definition validatePropertyName :: "string \<Rightarrow> string list" where
  "validatePropertyName name =
     (if name = [] then [''Property name must be a non-empty string'']
      else (if length name = 0 then [''Property name cannot be empty''] else []) @
           (if length name > 100 then [''Property name cannot exceed 100 characters''] else []) @
           (if \<not> regex_test startsWithLetterRegex name
            then [''Property name must start with a letter''] else []) @
           (if \<not> regex_test propertyNameRegex name
            then [''Property name can only contain letters, numbers, underscores, and spaces'']
            else []))"

definition validateSelectionOptions :: "jsval \<Rightarrow> string \<Rightarrow> string list" where
  "validateSelectionOptions options propertyName =
     (if \<not> isArray options
      then [''Property '' @ quote propertyName @ '': Options must be an array'']
      else
        (if length (elements options) = 0
         then [''Property '' @ quote propertyName @ '': Selection options cannot be empty'']
         else []) @
        (let invalidOptions = filter (\<lambda>option. typeof option \<noteq> ''string'') (elements options)
         in if length invalidOptions > 0
            then [''Property '' @ quote propertyName @ '': All options must be strings'']
            else []) @
        (let emptyOptions =
               filter (\<lambda>option. typeof option = ''string'' \<and>
                         (case option of JStr s \<Rightarrow> length (trim s) = 0 | _ \<Rightarrow> False))
                 (elements options)
         in if length emptyOptions > 0
            then [''Property '' @ quote propertyName @ '': Options cannot be empty strings'']
            else []) @
        (let stringOptions = filter (\<lambda>option. typeof option = ''string'') (elements options);
             uniqueOptions = remdups stringOptions
         in if length uniqueOptions \<noteq> length stringOptions
            then [''Property '' @ quote propertyName @ '': Options must be unique'']
            else []))"

definition validatePropertyStructure ::
  "(jsval \<Rightarrow> error + string) \<Rightarrow> string \<Rightarrow> jsval \<Rightarrow> error + string list" where
  "validatePropertyStructure to_string name defn =
     (let nameErrors = validatePropertyName name in
      if \<not> isPropertyDefinition defn
      then Inr (nameErrors @ [''Property '' @ quote name @ '': Invalid property definition structure''])
      else if field defn ''type'' \<in> set (map JStr [''title'', ''rich_text'', ''checkbox'', ''date'',
                                                  ''url'', ''email'', ''people''])
      then Inr nameErrors
      else if field defn ''type'' = JStr ''number''
      then (if truthy (field defn ''format'') \<and> \<not> isValidNumberFormat (field defn ''format'')
            then (case to_string (field defn ''format'') of
                    Inl e \<Rightarrow> Inl e
                  | Inr text \<Rightarrow>
                      Inr (nameErrors @
                           [''Property '' @ quote name @ '': Invalid number format '' @ quote text]))
            else Inr nameErrors)
      else if field defn ''type'' = JStr ''select'' \<or> field defn ''type'' = JStr ''multi_select''
      then (if \<not> hasField defn ''options'' \<or> \<not> isArray (field defn ''options'')
            then Inr (nameErrors @
                      [''Property '' @ quote name @ '': Selection properties must have options array''])
            else Inr (nameErrors @ validateSelectionOptions (field defn ''options'') name))
      else Inr (nameErrors @ [''Property '' @ quote name @ '': Unknown property type'']))"

text \<open>The loop over the entries; an exception of one iteration ends it.\<close>

fun validateEachProperty ::
  "(jsval \<Rightarrow> error + string) \<Rightarrow> (string \<times> jsval) list \<Rightarrow> string list \<Rightarrow> error + string list" where
  "validateEachProperty to_string [] errs = Inr errs"
| "validateEachProperty to_string ((name, defn) # rest) errs =
     (case validatePropertyStructure to_string name defn of
        Inl e \<Rightarrow> Inl e
      | Inr propertyErrors \<Rightarrow> validateEachProperty to_string rest (errs @ propertyErrors))"

definition validateSchemaStructure ::
  "(jsval \<Rightarrow> error + string) \<Rightarrow> jsval \<Rightarrow> ValidationConfig \<Rightarrow> error + ValidationResult" where
  "validateSchemaStructure to_string schema config =
     (if \<not> truthy schema \<or> typeof schema \<noteq> ''object''
      then Inr \<lparr>isValid = False, errors = [''Schema must be a non-null object'']\<rparr>
      else
        let errs0 =
              (if \<not> truthy (field schema ''databaseId'') \<or>
                  typeof (field schema ''databaseId'') \<noteq> ''string''
               then [''Database ID is required and must be a string'']
               else if \<not> (case field schema ''databaseId'' of
                              JStr s \<Rightarrow> isValidDatabaseId s | _ \<Rightarrow> False)
               then [''Database ID must be a valid UUID format'']
               else [])
        in
        if \<not> truthy (field schema ''properties'') \<or> typeof (field schema ''properties'') \<noteq> ''object''
        then Inr \<lparr>isValid = False,
                  errors = errs0 @ [''Properties are required and must be an object'']\<rparr>
        else
          let propertyEntries = object_entries (field schema ''properties'');
              errs1 = errs0 @
                (if int (length propertyEntries) < minProperties config
                 then [''Schema must have at least '' @ show_int (minProperties config) @ '' property'']
                 else []) @
                (if int (length propertyEntries) > maxProperties config
                 then [''Schema cannot have more than '' @ show_int (maxProperties config) @ '' properties'']
                 else []);
              titleProperties =
                filter (\<lambda>(name, defn). isPropertyDefinition defn \<and> field defn ''type'' = JStr ''title'')
                  propertyEntries;
              errs2 = errs1 @
                (if requireTitle config \<and> length titleProperties = 0
                 then [''Schema must have exactly one title property''] else []) @
                (if \<not> allowMultipleTitles config \<and> length titleProperties > 1
                 then [''Schema cannot have multiple title properties''] else [])
          in case validateEachProperty to_string propertyEntries errs2 of
               Inl e \<Rightarrow> Inl e
             | Inr errs \<Rightarrow> Inr \<lparr>isValid = (length errs = 0), errors = errs\<rparr>)"

definition validateSchema ::
  "(jsval \<Rightarrow> error + string) \<Rightarrow> jsval \<Rightarrow> ValidationConfig \<Rightarrow> error + unit" where
  "validateSchema to_string schema config =
     (case validateSchemaStructure to_string schema config of
        Inl e \<Rightarrow> Inl e
      | Inr result \<Rightarrow>
          if \<not> isValid result
          then Inl (SchemaValidationError ''schema'' ''valid schema structure''
                      (JStr (''Validation failed: '' @ join '', '' (errors result))))
          else Inr ())"

section \<open>The words of the specification\<close>

text \<open>
  The specification's number rule speaks of a finite number: a number that is neither
  NaN nor positive or negative Infinity. This predicate follows those words; it is not
  part of the source.
\<close>

fun spec_finite_number :: "jsval \<Rightarrow> bool" where
  "spec_finite_number (JNum (Finite r)) = True"
| "spec_finite_number v = False"

section \<open>Literals and values of the repository's tests\<close>

text \<open>
  Instances of the two platform parameters for closed statements: a parser that knows
  the URLs used below, and a string conversion that converts strings and refuses every
  other value. No statement below depends on what they do elsewhere.
\<close>

definition sample_url_protocol :: "string \<Rightarrow> string option" where
  "sample_url_protocol url =
     (if url = ''https://company.com'' then Some ''https:''
      else if url = ''http://company.com'' then Some ''http:''
      else if url = ''ftp://x.com'' then Some ''ftp:''
      else None)"

definition strings_only :: "jsval \<Rightarrow> error + string" where
  "strings_only v = (case v of JStr s \<Rightarrow> Inr s | _ \<Rightarrow> Inl TypeError)"

definition basic_schema :: SchemaDefinition where
  "basic_schema =
     \<lparr>databaseId = ''12345678-1234-5678-9abc-123456789abc'',
      properties = [(''Name'', Title), (''Age'', Number None), (''Active'', Checkbox)]\<rparr>"

definition basic_handle :: TypedSchema where
  "basic_handle = \<lparr>schema_definition = basic_schema, createdAt = 0, lastQueryDuration = Finite 0\<rparr>"

definition contactSchema :: SchemaDefinition where
  "contactSchema =
     \<lparr>databaseId = ''12345678-1234-5678-9abc-123456789abc'',
      properties =
        [(''CompanyName'', Title),
         (''Description'', RichText),
         (''ContactEmail'', Email),
         (''Website'', Url),
         (''FoundedDate'', Date),
         (''TeamMembers'', People),
         (''Industry'', Select [''Technology'', ''Healthcare'', ''Finance'', ''Education'', ''Retail'']),
         (''Services'', MultiSelect [''Consulting'', ''Development'', ''Support'', ''Training'']),
         (''Budget'', Number (Some FormatDollar)),
         (''IsActive'', Checkbox)]\<rparr>"

definition contact_handle :: TypedSchema where
  "contact_handle = \<lparr>schema_definition = contactSchema, createdAt = 0, lastQueryDuration = Finite 0\<rparr>"

definition no_title_schema :: SchemaDefinition where
  "no_title_schema =
     \<lparr>databaseId = ''12345678-1234-5678-9abc-123456789abc'',
      properties = [(''Age'', Number None), (''Active'', Checkbox)]\<rparr>"

definition two_titles_schema :: SchemaDefinition where
  "two_titles_schema =
     \<lparr>databaseId = ''12345678-1234-5678-9abc-123456789abc'',
      properties = [(''Name'', Title), (''Other'', Title)]\<rparr>"

definition prototype_title_schema :: SchemaDefinition where
  "prototype_title_schema =
     \<lparr>databaseId = ''12345678-1234-5678-9abc-123456789abc'',
      properties = [(''Name'', Title), (''prototype'', Title)]\<rparr>"

definition constructor_title_schema :: SchemaDefinition where
  "constructor_title_schema =
     \<lparr>databaseId = ''12345678-1234-5678-9abc-123456789abc'',
      properties = [(''constructor'', Title), (''Age'', Number None)]\<rparr>"

definition symbol_format_schema :: jsval where
  "symbol_format_schema =
     JObject [(''databaseId'', JStr ''12345678-1234-5678-9abc-123456789abc''),
              (''properties'',
               JObject [(''Name'', JObject [(''type'', JStr ''title'')]),
                        (''Age'', JObject [(''type'', JStr ''number''), (''format'', JSymbol)])])]"

definition digit_name_schema :: SchemaDefinition where
  "digit_name_schema =
     \<lparr>databaseId = ''12345678-1234-5678-9abc-123456789abc'',
      properties = [(''123Bad'', Title)]\<rparr>"

definition long_name_schema :: SchemaDefinition where
  "long_name_schema =
     \<lparr>databaseId = ''12345678-1234-5678-9abc-123456789abc'',
      properties = [(replicate 101 (CHR ''a''), Title)]\<rparr>"

definition blank_option_schema :: SchemaDefinition where
  "blank_option_schema =
     \<lparr>databaseId = ''12345678-1234-5678-9abc-123456789abc'',
      properties = [(''Name'', Title), (''Status'', Select [''Todo'', ''   ''])]\<rparr>"

definition numbered_schema :: "nat \<Rightarrow> SchemaDefinition" where
  "numbered_schema n =
     \<lparr>databaseId = ''12345678-1234-5678-9abc-123456789abc'',
      properties =
        (''Title'', Title) # map (\<lambda>i. (''Property'' @ show_nat i, Number None)) [1..<n]\<rparr>"

definition validUser :: jsval where
  "validUser =
     JObject [(''id'', JStr ''user-123''),
              (''name'', JStr ''John Doe''),
              (''avatar_url'', JStr ''https://example.com/avatar.jpg''),
              (''type'', JStr ''person''),
              (''person'', JObject [(''email'', JStr ''john@example.com'')]),
              (''bot'', JNull)]"

section \<open>Auxiliary facts\<close>

text \<open>The matcher decides the language of its regular expression.\<close>

lemma nullable_lang: "nullable r = ([] \<in> lang r)"
  by (induction r) (auto simp: conc_def intro: star.star_empty)

lemma lang_cat: "lang (cat r s) = conc (lang r) (lang s)"
  by (induction r s rule: cat.induct) (auto simp: conc_def)

lemma lang_either: "lang (either r s) = lang r \<union> lang s"
  by (induction r s rule: either.induct) auto

lemma tail_conc:
  "{w. c # w \<in> conc A B} =
   conc {w. c # w \<in> A} B \<union> (if [] \<in> A then {w. c # w \<in> B} else {})"
proof -
  have "c # w \<in> conc A B \<longleftrightarrow>
        (\<exists>u v. w = u @ v \<and> c # u \<in> A \<and> v \<in> B) \<or> ([] \<in> A \<and> c # w \<in> B)" for w
    unfolding conc_def
    by (auto simp: Cons_eq_append_conv)
  then show ?thesis
    by (auto simp: conc_def)
qed

lemma star_head:
  "x \<in> star A \<Longrightarrow> x = c # w \<Longrightarrow> \<exists>u v. w = u @ v \<and> c # u \<in> A \<and> v \<in> star A"
proof (induction arbitrary: w rule: star.induct)
  case star_empty
  then show ?case by simp
next
  case (star_more u v)
  show ?case
  proof (cases u)
    case Nil
    with star_more show ?thesis by simp
  next
    case (Cons a u')
    with star_more have "w = u' @ v" and "c # u' \<in> A"
      by auto
    with star_more.hyps(2) show ?thesis by blast
  qed
qed

lemma tail_star: "{w. c # w \<in> star A} = conc {w. c # w \<in> A} (star A)"
proof (intro set_eqI iffI)
  fix w assume "w \<in> {w. c # w \<in> star A}"
  then show "w \<in> conc {w. c # w \<in> A} (star A)"
    using star_head [of "c # w" A c w] by (auto simp: conc_def)
next
  fix w assume "w \<in> conc {w. c # w \<in> A} (star A)"
  then obtain u v where "w = u @ v" "c # u \<in> A" "v \<in> star A"
    by (auto simp: conc_def)
  then show "w \<in> {w. c # w \<in> star A}"
    using star.star_more [of "c # u" A v] by simp
qed

lemma lang_step: "lang (step c r) = {w. c # w \<in> lang r}"
proof (induction r)
  case (Cat r s)
  then show ?case
    by (simp add: lang_cat lang_either tail_conc nullable_lang)
next
  case (Many r)
  then show ?case
    by (simp add: lang_cat tail_star)
qed (auto simp: lang_either)

lemma regex_test_lang: "regex_test r s = (s \<in> lang r)"
  unfolding regex_test_def
  by (induction s arbitrary: r) (simp_all add: nullable_lang lang_step)

text \<open>Facts about the definitions of the source.\<close>


lemma array_includes_JStr: "array_includes options (JStr s) = (s \<in> set options)"
  by (auto simp: array_includes_def)

lemma type_tag_title: "(type_tag d = ''title'') = (d = Title)"
  by (cases d) simp_all

lemma title_count_values:
  "length (filter (\<lambda>prop. type_tag prop = ''title'') (map snd ps)) =
   length (filter (\<lambda>(name, d). d = Title) ps)"
  by (induction ps) (auto simp: type_tag_title)

lemma databaseIdRegex_nonempty: "regex_test databaseIdRegex s \<Longrightarrow> 1 \<le> length s"
proof (cases s)
  case Nil
  assume "regex_test databaseIdRegex s"
  moreover have "\<not> regex_test databaseIdRegex []"
    by code_simp
  ultimately show ?thesis using Nil by simp
next
  case (Cons c cs)
  then show ?thesis by simp
qed

lemma options_rule:
  "(0 < length options \<and> length (remdups options) = length options) =
   (options \<noteq> [] \<and> distinct options)"
  by (auto simp: length_remdups_card_conv distinct_card dest: card_distinct)

lemma propertyDefinitionSchema_iff:
  "propertyDefinitionSchema d =
   (\<forall>options. d = Select options \<or> d = MultiSelect options \<longrightarrow> options \<noteq> [] \<and> distinct options)"
  by (cases d) (auto simp: options_rule simp del: length_greater_0_conv)

lemma record_entries_unreserved:
  "\<forall>name \<in> set (map fst ps). name \<notin> set blocked_keys \<Longrightarrow> record_entries ps = ps"
  unfolding record_entries_def by (induction ps) auto

lemma handle_of_new:
  "new_TypedSchema now defn = Inr h \<Longrightarrow> schema_definition h = defn"
  by (auto simp: new_TypedSchema_def split: sum.splits)

lemma accepted_of_new:
  "new_TypedSchema now defn = Inr h \<Longrightarrow> schemaDefinitionSchema defn"
  by (auto simp: new_TypedSchema_def validateSchemaDefinition_def split: sum.splits if_splits)

lemma getProperty_declared:
  assumes "new_TypedSchema now defn = Inr h" and "map_of (properties defn) name = Some d"
  shows "getProperty h name = Inr (Declared d)"
proof -
  from assms(1) have sd: "schema_definition h = defn"
    by (rule handle_of_new)
  from assms(2) have "name \<in> set (map fst (properties defn))"
    by (auto dest: map_of_SomeD intro: rev_image_eqI)
  with sd have "hasProperty h name"
    by (simp add: hasProperty_def js_in_def)
  with assms(2) sd show ?thesis
    by (simp add: getProperty_def)
qed

section \<open>The value validator\<close>

text \<open>
  C1. The claim: for every property variant of a validated schema and every value that is
  neither null nor undefined, the bound predicate returns true exactly when
  \<open>validatePropertyValue\<close> returns normally. The repository's integration test of
  the contact schema expects the same (the predicate is false for \<open>'invalid-email'\<close>,
  \<open>'invalid-url'\<close> and \<open>['string']\<close>). The code differs: for an \<open>email\<close>, a
  \<open>url\<close> and a \<open>people\<close> property the predicate only looks at the run-time type,
  so it accepts every string that is not a valid e-mail address or URL and every array
  with an invalid user reference, which \<open>validatePropertyValue\<close> rejects.
\<close>

theorem validator_surfaces_diverge:
  "new_TypedSchema now defn = Inr h \<longrightarrow>
     (map_of (properties defn) name = Some Email \<and> \<not> isValidEmail s \<longrightarrow>
        createPropertyValidator h name (JStr s) = Inr True \<and>
        validatePropertyValue url_protocol (JStr s) Email name =
          Inl (PropertyValidationError name (JStr s) ''valid email address'')) \<and>
     (map_of (properties defn) name = Some Url \<and> \<not> isValidURL url_protocol s \<longrightarrow>
        createPropertyValidator h name (JStr s) = Inr True \<and>
        validatePropertyValue url_protocol (JStr s) Url name =
          Inl (PropertyValidationError name (JStr s) ''valid URL'')) \<and>
     (map_of (properties defn) name = Some People \<and> \<not> list_all isValidNotionUser xs \<longrightarrow>
        createPropertyValidator h name (JArray xs) = Inr True \<and>
        validatePropertyValue url_protocol (JArray xs) People name =
          Inl (PropertyValidationError name (JArray xs) ''array of valid NotionUser objects''))"
proof (intro impI conjI)
  assume new: "new_TypedSchema now defn = Inr h"
  {
    assume a: "map_of (properties defn) name = Some Email \<and> \<not> isValidEmail s"
    with new have "getProperty h name = Inr (Declared Email)"
      by (simp add: getProperty_declared)
    then show "createPropertyValidator h name (JStr s) = Inr True"
      by (simp add: createPropertyValidator_def)
    from a show "validatePropertyValue url_protocol (JStr s) Email name =
          Inl (PropertyValidationError name (JStr s) ''valid email address'')"
      by (simp add: validatePropertyValue_def)
  next
    assume a: "map_of (properties defn) name = Some Url \<and> \<not> isValidURL url_protocol s"
    with new have "getProperty h name = Inr (Declared Url)"
      by (simp add: getProperty_declared)
    then show "createPropertyValidator h name (JStr s) = Inr True"
      by (simp add: createPropertyValidator_def)
    from a show "validatePropertyValue url_protocol (JStr s) Url name =
          Inl (PropertyValidationError name (JStr s) ''valid URL'')"
      by (simp add: validatePropertyValue_def)
  next
    assume a: "map_of (properties defn) name = Some People \<and> \<not> list_all isValidNotionUser xs"
    with new have "getProperty h name = Inr (Declared People)"
      by (simp add: getProperty_declared)
    then show "createPropertyValidator h name (JArray xs) = Inr True"
      by (simp add: createPropertyValidator_def)
    from a show "validatePropertyValue url_protocol (JArray xs) People name =
          Inl (PropertyValidationError name (JArray xs) ''array of valid NotionUser objects'')"
      by (simp add: validatePropertyValue_def)
  }
qed

theorem validator_surfaces_diverge_witness:
  "new_TypedSchema 0 contactSchema = Inr contact_handle \<and>
   createPropertyValidator contact_handle ''ContactEmail'' (JStr ''invalid-email'') = Inr True \<and>
   validatePropertyValue sample_url_protocol (JStr ''invalid-email'') Email ''ContactEmail'' =
     Inl (PropertyValidationError ''ContactEmail'' (JStr ''invalid-email'') ''valid email address'') \<and>
   createPropertyValidator contact_handle ''Website'' (JStr ''invalid-url'') = Inr True \<and>
   validatePropertyValue sample_url_protocol (JStr ''invalid-url'') Url ''Website'' =
     Inl (PropertyValidationError ''Website'' (JStr ''invalid-url'') ''valid URL'') \<and>
   createPropertyValidator contact_handle ''TeamMembers'' (JArray [JStr ''string'']) = Inr True \<and>
   validatePropertyValue sample_url_protocol (JArray [JStr ''string'']) People ''TeamMembers'' =
     Inl (PropertyValidationError ''TeamMembers'' (JArray [JStr ''string''])
            ''array of valid NotionUser objects'')"
proof -
  have new: "new_TypedSchema 0 contactSchema = Inr contact_handle"
    by code_simp
  have email: "map_of (properties contactSchema) ''ContactEmail'' = Some Email \<and>
               \<not> isValidEmail ''invalid-email''"
    by code_simp
  have url: "map_of (properties contactSchema) ''Website'' = Some Url \<and>
             \<not> isValidURL sample_url_protocol ''invalid-url''"
    by code_simp
  have people: "map_of (properties contactSchema) ''TeamMembers'' = Some People \<and>
                \<not> list_all isValidNotionUser [JStr ''string'']"
    by code_simp
  show ?thesis
    using new email url people
      validator_surfaces_diverge [of 0 contactSchema contact_handle "''ContactEmail''"
        "''invalid-email''" sample_url_protocol "[]"]
      validator_surfaces_diverge [of 0 contactSchema contact_handle "''Website''"
        "''invalid-url''" sample_url_protocol "[]"]
      validator_surfaces_diverge [of 0 contactSchema contact_handle "''TeamMembers''"
        "[]" sample_url_protocol "[JStr ''string'']"]
    by simp
qed

text \<open>
  Apart from these three variants the two surfaces agree on every value that is neither
  null nor undefined.
\<close>

lemma validator_surfaces_agree_elsewhere:
  assumes "new_TypedSchema now defn = Inr h" and "map_of (properties defn) name = Some d"
    and "d \<noteq> Email" and "d \<noteq> Url" and "d \<noteq> People"
    and "v \<noteq> JNull" and "v \<noteq> JUndefined"
  shows "(createPropertyValidator h name v = Inr True) =
         (validatePropertyValue url_protocol v d name = Inr ())"
proof -
  have get: "getProperty h name = Inr (Declared d)"
    using assms(1,2) by (rule getProperty_declared)
  have multi: "list_all (\<lambda>x. typeof x = ''string'' \<and> array_includes options x) xs =
               (list_all (\<lambda>x. typeof x = ''string'') xs \<and>
                filter (\<lambda>x. \<not> array_includes options x) xs = [])" for options xs
    by (auto simp: list_all_iff filter_empty_conv)
  show ?thesis
  proof (cases d)
    case (MultiSelect options)
    with get assms(6,7) show ?thesis
      by (cases v) (auto simp: createPropertyValidator_def validatePropertyValue_def multi Let_def)
  qed (use get assms in \<open>auto simp: createPropertyValidator_def validatePropertyValue_def\<close>)
qed

text \<open>
  C5. Null is always valid: for every property variant, \<open>validatePropertyValue\<close>
  returns normally for \<open>null\<close> and for \<open>undefined\<close>; and for every constructed
  handle and every property name present in its schema the bound predicate returns true
  for \<open>null\<close>, whatever the variant.
\<close>

theorem null_is_always_valid:
  "validatePropertyValue url_protocol JNull d name = Inr () \<and>
   validatePropertyValue url_protocol JUndefined d name = Inr () \<and>
   (new_TypedSchema now defn = Inr h \<and> name \<in> set (propertyNames h) \<longrightarrow>
      createPropertyValidator h name JNull = Inr True \<and>
      createPropertyValidator h name JUndefined = Inr True)"
proof (intro conjI impI)
  show "validatePropertyValue url_protocol JNull d name = Inr ()"
    by (simp add: validatePropertyValue_def)
  show "validatePropertyValue url_protocol JUndefined d name = Inr ()"
    by (simp add: validatePropertyValue_def)
next
  assume a: "new_TypedSchema now defn = Inr h \<and> name \<in> set (propertyNames h)"
  then have present: "hasProperty h name"
    by (simp add: hasProperty_def js_in_def propertyNames_def)
  then show "createPropertyValidator h name JNull = Inr True"
    by (simp add: createPropertyValidator_def getProperty_def)
  from present show "createPropertyValidator h name JUndefined = Inr True"
    by (simp add: createPropertyValidator_def getProperty_def)
qed

theorem null_is_always_valid_witness:
  "new_TypedSchema 0 contactSchema = Inr contact_handle \<and>
   ''Industry'' \<in> set (propertyNames contact_handle) \<and>
   createPropertyValidator contact_handle ''Industry'' JNull = Inr True \<and>
   createPropertyValidator contact_handle ''Industry'' JUndefined = Inr True \<and>
   validatePropertyValue sample_url_protocol JNull
     (Select [''Technology'', ''Healthcare'', ''Finance'', ''Education'', ''Retail'']) ''Industry'' = Inr () \<and>
   validatePropertyValue sample_url_protocol JUndefined
     (Select [''Technology'', ''Healthcare'', ''Finance'', ''Education'', ''Retail'']) ''Industry'' = Inr ()"
proof -
  have h: "new_TypedSchema 0 contactSchema = Inr contact_handle \<and>
           ''Industry'' \<in> set (propertyNames contact_handle)"
    by code_simp
  show ?thesis
    using h
      null_is_always_valid [of sample_url_protocol
        "Select [''Technology'', ''Healthcare'', ''Finance'', ''Education'', ''Retail'']"
        "''Industry''" 0 contactSchema contact_handle]
    by simp
qed

text \<open>
  C6. The claim: a number property accepts a value that is neither null nor undefined
  exactly when it is a finite number, not NaN and not positive or negative Infinity.
  The code only excludes NaN, in both surfaces. As amended: \<open>validatePropertyValue\<close>
  accepts such a value exactly when it is a number other than NaN (the two infinities
  are accepted) and otherwise throws \<open>PropertyValidationError\<close> with expected type
  \<open>number\<close>; the bound predicate of a handle agrees.
\<close>

theorem number_rule:
  "v \<noteq> JNull \<and> v \<noteq> JUndefined \<longrightarrow>
     validatePropertyValue url_protocol v (Number fmt) name =
       (if (\<exists>n. v = JNum n \<and> n \<noteq> NaN) then Inr ()
        else Inl (PropertyValidationError name v ''number'')) \<and>
     (new_TypedSchema now defn = Inr h \<and> map_of (properties defn) name = Some (Number fmt) \<longrightarrow>
        createPropertyValidator h name v = Inr (\<exists>n. v = JNum n \<and> n \<noteq> NaN))"
proof (intro impI conjI)
  assume nn: "v \<noteq> JNull \<and> v \<noteq> JUndefined"
  then show "validatePropertyValue url_protocol v (Number fmt) name =
       (if (\<exists>n. v = JNum n \<and> n \<noteq> NaN) then Inr ()
        else Inl (PropertyValidationError name v ''number''))"
    by (cases v) (simp_all add: validatePropertyValue_def)
next
  assume nn: "v \<noteq> JNull \<and> v \<noteq> JUndefined"
  assume a: "new_TypedSchema now defn = Inr h \<and> map_of (properties defn) name = Some (Number fmt)"
  then have "getProperty h name = Inr (Declared (Number fmt))"
    by (auto intro: getProperty_declared)
  with nn show "createPropertyValidator h name v = Inr (\<exists>n. v = JNum n \<and> n \<noteq> NaN)"
    by (cases v) (simp_all add: createPropertyValidator_def)
qed

theorem number_rule_witness:
  "JNum (Finite 30) \<noteq> JNull \<and> JNum (Finite 30) \<noteq> JUndefined \<and>
   new_TypedSchema 0 basic_schema = Inr basic_handle \<and>
   map_of (properties basic_schema) ''Age'' = Some (Number None) \<and>
   validatePropertyValue sample_url_protocol (JNum (Finite 30)) (Number None) ''Age'' = Inr () \<and>
   createPropertyValidator basic_handle ''Age'' (JNum (Finite 30)) = Inr True \<and>
   validatePropertyValue sample_url_protocol (JStr ''thirty'') (Number None) ''Age'' =
     Inl (PropertyValidationError ''Age'' (JStr ''thirty'') ''number'') \<and>
   createPropertyValidator basic_handle ''Age'' (JStr ''thirty'') = Inr False"
proof -
  have h1: "JNum (Finite 30) \<noteq> JNull \<and> JNum (Finite 30) \<noteq> JUndefined"
    by simp
  have h2: "JStr ''thirty'' \<noteq> JNull \<and> JStr ''thirty'' \<noteq> JUndefined"
    by simp
  have h3: "new_TypedSchema 0 basic_schema = Inr basic_handle \<and>
            map_of (properties basic_schema) ''Age'' = Some (Number None)"
    by code_simp
  show ?thesis
    using h1 h2 h3
      number_rule [of "JNum (Finite 30)" sample_url_protocol None "''Age''" 0 basic_schema basic_handle]
      number_rule [of "JStr ''thirty''" sample_url_protocol None "''Age''" 0 basic_schema basic_handle]
    by simp
qed

theorem number_rule_counterexample:
  "validatePropertyValue sample_url_protocol (JNum PosInfinity) (Number None) ''Age'' = Inr () \<and>
   createPropertyValidator basic_handle ''Age'' (JNum PosInfinity) = Inr True \<and>
   JNum PosInfinity \<noteq> JNull \<and> JNum PosInfinity \<noteq> JUndefined \<and>
   \<not> spec_finite_number (JNum PosInfinity)"
  by (simp add: validatePropertyValue_def createPropertyValidator_def getProperty_def
      hasProperty_def js_in_def basic_handle_def basic_schema_def)

text \<open>
  C7. The first-offender rule of \<open>multi_select\<close>: given a list of strings of which at
  least one is not among the options, \<open>validatePropertyValue\<close> throws
  \<open>SelectionValidationError\<close> whose \<open>value\<close> is the first offending element in list
  order and whose \<open>validOptions\<close> is the declared options list. The list is split at
  its first offender: everything before \<open>x\<close> is an option, \<open>x\<close> is not.
\<close>

theorem multi_select_first_offender:
  "list_all (\<lambda>s. s \<in> set options) before \<and> x \<notin> set options \<longrightarrow>
   validatePropertyValue url_protocol (JArray (map JStr (before @ x # rest))) (MultiSelect options) name
     = Inl (SelectionValidationError name (JStr x) options)"
proof
  assume a: "list_all (\<lambda>s. s \<in> set options) before \<and> x \<notin> set options"
  have strings: "list_all (\<lambda>v. typeof v = ''string'') (map JStr (before @ x # rest))"
    by (auto simp: list_all_iff)
  have "filter (\<lambda>v. \<not> array_includes options v) (map JStr before) = []"
    using a by (induction before) (simp_all add: array_includes_JStr)
  then have offenders:
    "filter (\<lambda>v. \<not> array_includes options v) (map JStr (before @ x # rest)) =
     JStr x # filter (\<lambda>v. \<not> array_includes options v) (map JStr rest)"
    using a by (simp add: array_includes_JStr)
  show "validatePropertyValue url_protocol (JArray (map JStr (before @ x # rest)))
          (MultiSelect options) name
        = Inl (SelectionValidationError name (JStr x) options)"
    unfolding validatePropertyValue_def using strings offenders
    by (simp add: Let_def)
qed

theorem multi_select_first_offender_witness:
  "list_all (\<lambda>s. s \<in> set [''Bug'', ''Feature'']) [''Bug''] \<and>
   ''Oops'' \<notin> set [''Bug'', ''Feature''] \<and>
   validatePropertyValue sample_url_protocol (JArray [JStr ''Bug'', JStr ''Oops'', JStr ''Feature''])
     (MultiSelect [''Bug'', ''Feature'']) ''Tags''
     = Inl (SelectionValidationError ''Tags'' (JStr ''Oops'') [''Bug'', ''Feature''])"
proof -
  have h: "list_all (\<lambda>s. s \<in> set [''Bug'', ''Feature'']) [''Bug''] \<and>
           ''Oops'' \<notin> set [''Bug'', ''Feature'']"
    by simp
  show ?thesis
    using h
      multi_select_first_offender [of "[''Bug'', ''Feature'']" "[''Bug'']" "''Oops''"
        sample_url_protocol "[''Feature'']" "''Tags''"]
    by simp
qed

section \<open>Construction of a handle\<close>

text \<open>
  C2. The claim: constructing a handle from a literal with a property named
  \<open>123Bad\<close>, or with a property name of length 101, throws
  \<open>SchemaValidationError\<close>. The constructor validates with
  \<open>validateSchemaDefinition\<close>, whose record schema accepts every string as a key, so
  both literals are accepted; the name rules are applied only by the sibling path
  \<open>validateSchemaStructure\<close> through \<open>validatePropertyName\<close>, which reports both
  names.
\<close>

theorem construction_ignores_property_names:
  "new_TypedSchema 0 digit_name_schema =
     Inr \<lparr>schema_definition = digit_name_schema, createdAt = 0, lastQueryDuration = Finite 0\<rparr> \<and>
   new_TypedSchema 0 long_name_schema =
     Inr \<lparr>schema_definition = long_name_schema, createdAt = 0, lastQueryDuration = Finite 0\<rparr> \<and>
   validatePropertyName ''123Bad'' =
     [''Property name must start with a letter'',
      ''Property name can only contain letters, numbers, underscores, and spaces''] \<and>
   length (replicate 101 (CHR ''a'')) = 101 \<and>
   validatePropertyName (replicate 101 (CHR ''a'')) =
     [''Property name cannot exceed 100 characters''] \<and>
   validatePropertyName ''Valid_Name 2'' = []"
  by code_simp

text \<open>
  Apart from the three names that the record schema passes over, whether a literal is
  accepted does not depend on its property names: a renaming that keeps those three
  names apart leaves the outcome of the creation-time validation unchanged.
\<close>

lemma schemaDefinitionSchema_renaming:
  assumes "\<forall>name. (rename name \<in> set blocked_keys) = (name \<in> set blocked_keys)"
  shows "schemaDefinitionSchema
           \<lparr>databaseId = ident, properties = map (\<lambda>(name, d). (rename name, d)) ps\<rparr> =
         schemaDefinitionSchema \<lparr>databaseId = ident, properties = ps\<rparr>"
proof -
  have "record_entries (map (\<lambda>(name, d). (rename name, d)) ps) =
        map (\<lambda>(name, d). (rename name, d)) (record_entries ps)"
    unfolding record_entries_def using assms by (induction ps) auto
  then show ?thesis
    unfolding schemaDefinitionSchema_def
    by (simp add: comp_def case_prod_beta list_all_iff)
qed

text \<open>
  C3. The claim: constructing a handle from a literal with no \<open>title\<close> property, or
  with two or more, throws \<open>SchemaValidationError\<close>, and with exactly one (the other
  rules satisfied) construction succeeds. The repository's requirements say the same
  (every schema has exactly one title property, enforced at creation time). The title
  count of the creation-time validation runs on the parsed record, which leaves out the
  entries named \<open>__proto__\<close>, \<open>prototype\<close> and \<open>constructor\<close>. So the literal
  with the two title properties \<open>Name\<close> and \<open>prototype\<close> is accepted, and the
  literal whose only title property is named \<open>constructor\<close> is refused although it
  has exactly one title property and meets every other rule.
\<close>

theorem construction_skips_reserved_names:
  "length (filter (\<lambda>(name, d). d = Title) (properties prototype_title_schema)) = 2 \<and>
   new_TypedSchema 0 prototype_title_schema =
     Inr \<lparr>schema_definition = prototype_title_schema, createdAt = 0,
          lastQueryDuration = Finite 0\<rparr> \<and>
   length (filter (\<lambda>(name, d). d = Title) (properties constructor_title_schema)) = 1 \<and>
   regex_test databaseIdRegex (databaseId constructor_title_schema) \<and>
   length (properties constructor_title_schema) = 2 \<and>
   new_TypedSchema 0 constructor_title_schema =
     Inl (SchemaValidationError ''schema'' ''valid schema definition''
            (js_of_schema constructor_title_schema))"
  by code_simp

text \<open>
  For a literal none of whose property names is one of those three, construction does
  what the claim says: it throws unless there is exactly one title property, and with
  exactly one it succeeds when the database identifier matches its pattern, there are
  at most 20 properties and every options list is non-empty and duplicate-free.
\<close>

lemma exactly_one_title_unreserved:
  assumes unreserved: "\<forall>name \<in> set (map fst (properties defn)). name \<notin> set blocked_keys"
  shows
  "(length (filter (\<lambda>(name, d). d = Title) (properties defn)) \<noteq> 1 \<longrightarrow>
      new_TypedSchema now defn =
        Inl (SchemaValidationError ''schema'' ''valid schema definition'' (js_of_schema defn))) \<and>
   (length (filter (\<lambda>(name, d). d = Title) (properties defn)) = 1 \<and>
    regex_test databaseIdRegex (databaseId defn) \<and>
    length (properties defn) \<le> 20 \<and>
    (\<forall>(name, d) \<in> set (properties defn). \<forall>options.
        d = Select options \<or> d = MultiSelect options \<longrightarrow> options \<noteq> [] \<and> distinct options) \<longrightarrow>
      new_TypedSchema now defn =
        Inr \<lparr>schema_definition = defn, createdAt = now, lastQueryDuration = Finite 0\<rparr>)"
proof (intro conjI impI)
  have all: "record_entries (properties defn) = properties defn"
    using unreserved by (rule record_entries_unreserved)
  {
    assume "length (filter (\<lambda>(name, d). d = Title) (properties defn)) \<noteq> 1"
    then have "\<not> schemaDefinitionSchema defn"
      unfolding schemaDefinitionSchema_def all title_count_values by simp
    then show "new_TypedSchema now defn =
          Inl (SchemaValidationError ''schema'' ''valid schema definition'' (js_of_schema defn))"
      by (simp add: new_TypedSchema_def validateSchemaDefinition_def)
  next
    assume a: "length (filter (\<lambda>(name, d). d = Title) (properties defn)) = 1 \<and>
      regex_test databaseIdRegex (databaseId defn) \<and>
      length (properties defn) \<le> 20 \<and>
      (\<forall>(name, d) \<in> set (properties defn). \<forall>options.
          d = Select options \<or> d = MultiSelect options \<longrightarrow> options \<noteq> [] \<and> distinct options)"
    then have nonempty: "properties defn \<noteq> []"
      by auto
    from a have db: "1 \<le> length (databaseId defn) \<and> regex_test databaseIdRegex (databaseId defn)"
      using databaseIdRegex_nonempty [of "databaseId defn"] by simp
    from a have "list_all (\<lambda>(name, prop). propertyDefinitionSchema prop) (properties defn)"
      by (auto simp: list_all_iff propertyDefinitionSchema_iff)
    with a nonempty db have "schemaDefinitionSchema defn"
      unfolding schemaDefinitionSchema_def all title_count_values by simp
    then show "new_TypedSchema now defn =
          Inr \<lparr>schema_definition = defn, createdAt = now, lastQueryDuration = Finite 0\<rparr>"
      by (simp add: new_TypedSchema_def validateSchemaDefinition_def)
  }
qed

text \<open>The literals of the tests: no title, two titles, and the contact schema.\<close>

lemma title_scenario:
  "new_TypedSchema 0 no_title_schema =
     Inl (SchemaValidationError ''schema'' ''valid schema definition'' (js_of_schema no_title_schema)) \<and>
   new_TypedSchema 0 two_titles_schema =
     Inl (SchemaValidationError ''schema'' ''valid schema definition'' (js_of_schema two_titles_schema)) \<and>
   new_TypedSchema 0 contactSchema = Inr contact_handle"
  by code_simp

text \<open>
  C4. The claim: every accepted schema has, for each \<open>select\<close> and \<open>multi_select\<close>
  property, an options list that is non-empty, duplicate-free and without a blank
  element. The creation-time pipeline of an options list checks the first two
  conditions only; the check for blank elements is made by the two functions named
  \<open>validateSelectionOptions\<close> and is missing from the pipelines of
  \<open>propertyDefinitionSchema\<close>. A literal with the options \<open>Todo\<close> and three spaces
  is accepted, and \<open>validateSelectionOptions\<close> reports it.
\<close>

theorem construction_accepts_blank_option:
  "new_TypedSchema 0 blank_option_schema =
     Inr \<lparr>schema_definition = blank_option_schema, createdAt = 0, lastQueryDuration = Finite 0\<rparr> \<and>
   map_of (properties blank_option_schema) ''Status'' = Some (Select [''Todo'', ''   '']) \<and>
   trim ''   '' = [] \<and>
   validateSelectionOptions (JArray [JStr ''Todo'', JStr ''   '']) ''Status'' =
     [''Property '' @ quote ''Status'' @ '': Options cannot be empty strings'']"
  by code_simp

text \<open>
  The two conditions that the constructor does enforce, on every property that the
  record schema visits.
\<close>

lemma accepted_options_nonempty_distinct:
  assumes "new_TypedSchema now defn = Inr h"
    and "(name, d) \<in> set (properties (schema_definition h))"
    and "name \<notin> set blocked_keys"
    and "d = Select options \<or> d = MultiSelect options"
  shows "options \<noteq> [] \<and> distinct options"
proof -
  from assms(1) have "schemaDefinitionSchema defn" and sd: "schema_definition h = defn"
    by (auto dest: accepted_of_new handle_of_new)
  then have "list_all (\<lambda>(name, prop). propertyDefinitionSchema prop)
               (record_entries (properties defn))"
    by (simp add: schemaDefinitionSchema_def)
  moreover from assms(2,3) sd have "(name, d) \<in> set (record_entries (properties defn))"
    by (simp add: record_entries_def)
  ultimately have "propertyDefinitionSchema d"
    by (auto simp: list_all_iff)
  with assms(4) show ?thesis
    by (auto simp: propertyDefinitionSchema_iff)
qed

section \<open>The structural validator\<close>

text \<open>
  C8. The claim: when \<open>properties\<close> is absent or not an object,
  \<open>validateSchemaStructure\<close> returns \<open>isValid = false\<close> with only the properties
  message, also when \<open>databaseId\<close> is invalid, and never throws. The database
  identifier is checked before \<open>properties\<close> and its message stays in the list. As
  amended: for an input that is not a non-null object the result is invalid with the
  single message that the schema must be a non-null object; for a non-null object whose
  \<open>properties\<close> is absent, falsy or not an object the result is invalid and its
  messages are the database identifier's message, if the identifier is not a string
  matching the pattern, followed by the properties message, and nothing else. On these
  inputs the function returns and does not throw, whatever the platform's string
  conversion does.
\<close>

theorem properties_short_circuit:
  "(\<not> truthy schema \<or> typeof schema \<noteq> ''object'' \<longrightarrow>
      validateSchemaStructure to_string schema config =
        Inr \<lparr>isValid = False, errors = [''Schema must be a non-null object'']\<rparr>) \<and>
   (truthy schema \<and> typeof schema = ''object'' \<and>
    (\<not> truthy (field schema ''properties'') \<or> typeof (field schema ''properties'') \<noteq> ''object'') \<longrightarrow>
      validateSchemaStructure to_string schema config =
        Inr \<lparr>isValid = False,
             errors =
               (if (\<exists>s. field schema ''databaseId'' = JStr s \<and> isValidDatabaseId s) then []
                else if (\<exists>s. field schema ''databaseId'' = JStr s \<and> s \<noteq> [])
                  then [''Database ID must be a valid UUID format'']
                else [''Database ID is required and must be a string'']) @
               [''Properties are required and must be an object'']\<rparr>)"
proof (intro conjI impI)
  assume "\<not> truthy schema \<or> typeof schema \<noteq> ''object''"
  then show "validateSchemaStructure to_string schema config =
        Inr \<lparr>isValid = False, errors = [''Schema must be a non-null object'']\<rparr>"
    by (auto simp: validateSchemaStructure_def)
next
  assume a: "truthy schema \<and> typeof schema = ''object'' \<and>
    (\<not> truthy (field schema ''properties'') \<or> typeof (field schema ''properties'') \<noteq> ''object'')"
  have empty: "\<not> isValidDatabaseId []"
    by code_simp
  show "validateSchemaStructure to_string schema config =
        Inr \<lparr>isValid = False,
             errors =
               (if (\<exists>s. field schema ''databaseId'' = JStr s \<and> isValidDatabaseId s) then []
                else if (\<exists>s. field schema ''databaseId'' = JStr s \<and> s \<noteq> [])
                  then [''Database ID must be a valid UUID format'']
                else [''Database ID is required and must be a string'']) @
               [''Properties are required and must be an object'']\<rparr>"
  proof (cases "field schema ''databaseId''")
    case (JStr s)
    with a empty show ?thesis
      by (cases "s = []") (auto simp: validateSchemaStructure_def Let_def)
  qed (use a in \<open>auto simp: validateSchemaStructure_def Let_def\<close>)
qed

theorem properties_short_circuit_witness:
  "validateSchemaStructure strings_only JNull DEFAULT_VALIDATION_CONFIG =
     Inr \<lparr>isValid = False, errors = [''Schema must be a non-null object'']\<rparr> \<and>
   validateSchemaStructure strings_only
     (JObject [(''databaseId'', JStr ''12345678-1234-5678-9abc-123456789abc'')])
     DEFAULT_VALIDATION_CONFIG =
     Inr \<lparr>isValid = False, errors = [''Properties are required and must be an object'']\<rparr> \<and>
   validateSchemaStructure strings_only
     (JObject [(''databaseId'', JStr ''not-a-valid-uuid''), (''properties'', JStr ''none'')])
     DEFAULT_VALIDATION_CONFIG =
     Inr \<lparr>isValid = False,
          errors = [''Database ID must be a valid UUID format'',
                    ''Properties are required and must be an object'']\<rparr>"
proof -
  have valid: "isValidDatabaseId ''12345678-1234-5678-9abc-123456789abc''"
    by code_simp
  have invalid: "\<not> isValidDatabaseId ''not-a-valid-uuid''"
    by code_simp
  show ?thesis
    using valid invalid
      properties_short_circuit [of JNull strings_only DEFAULT_VALIDATION_CONFIG]
      properties_short_circuit
        [of "JObject [(''databaseId'', JStr ''12345678-1234-5678-9abc-123456789abc'')]"
          strings_only DEFAULT_VALIDATION_CONFIG]
      properties_short_circuit
        [of "JObject [(''databaseId'', JStr ''not-a-valid-uuid''), (''properties'', JStr ''none'')]"
          strings_only DEFAULT_VALIDATION_CONFIG]
    by simp
qed

theorem properties_short_circuit_counterexample:
  "validateSchemaStructure strings_only (JObject []) DEFAULT_VALIDATION_CONFIG =
     Inr \<lparr>isValid = False,
          errors = [''Database ID is required and must be a string'',
                    ''Properties are required and must be an object'']\<rparr> \<and>
   validateSchemaStructure strings_only (JObject []) DEFAULT_VALIDATION_CONFIG \<noteq>
     Inr \<lparr>isValid = False, errors = [''Properties are required and must be an object'']\<rparr>"
  by code_simp

section \<open>Property access on a handle\<close>

text \<open>
  C9. The claim: for every constructed handle and every name not present in its schema,
  \<open>getProperty\<close> throws \<open>PropertyAccessError\<close> and \<open>hasProperty\<close> returns false.
  \<open>hasProperty\<close> tests \<open>propertyName in properties\<close>, which also holds for the
  names that the \<open>properties\<close> object inherits from \<open>Object.prototype\<close>. On the
  handle of the basic schema (Name, Age, Active) the name \<open>toString\<close> is not a
  property of the schema, yet \<open>hasProperty\<close> returns true and \<open>getProperty\<close>
  returns the inherited member instead of throwing.
\<close>

theorem property_access_inherited_name:
  "new_TypedSchema 0 basic_schema = Inr basic_handle \<and>
   propertyNames basic_handle = [''Name'', ''Age'', ''Active''] \<and>
   hasProperty basic_handle ''toString'' = True \<and>
   getProperty basic_handle ''toString'' = Inr (ObjectPrototypeMember ''toString'')"
  by code_simp

text \<open>
  For every other name that is not a property of the schema the access is refused as the
  claim says, with the name and the handle's database identifier in the context, and a
  property of the schema is returned as it is stored.
\<close>

lemma property_access_refused:
  assumes "name \<notin> set (propertyNames h)" and "name \<notin> set object_prototype_keys"
  shows "getProperty h name = Inl (PropertyAccessError name (databaseId (schema_definition h))) \<and>
         hasProperty h name = False"
  using assms by (simp add: getProperty_def hasProperty_def js_in_def propertyNames_def)

lemma property_access_stored:
  assumes "map_of (properties (schema_definition h)) name = Some d"
  shows "getProperty h name = Inr (Declared d) \<and> hasProperty h name = True"
proof -
  from assms have "name \<in> set (map fst (properties (schema_definition h)))"
    by (auto dest: map_of_SomeD intro: rev_image_eqI)
  with assms show ?thesis
    by (simp add: getProperty_def hasProperty_def js_in_def)
qed

text \<open>
  C10. The claim: called with a property name that is not present in the schema, the
  bound predicate throws \<open>PropertyAccessError\<close>, also for \<open>null\<close> and
  \<open>undefined\<close>, because the lookup comes first. The lookup is \<open>getProperty\<close>, so
  the names inherited from \<open>Object.prototype\<close> pass it (the defect of C9): for
  \<open>toString\<close> on the handle of the basic schema the predicate returns true for
  \<open>null\<close> and \<open>undefined\<close> and false for a string, and does not throw.
\<close>

theorem bound_predicate_inherited_name:
  "propertyNames basic_handle = [''Name'', ''Age'', ''Active''] \<and>
   createPropertyValidator basic_handle ''toString'' JNull = Inr True \<and>
   createPropertyValidator basic_handle ''toString'' JUndefined = Inr True \<and>
   createPropertyValidator basic_handle ''toString'' (JStr ''text'') = Inr False"
  by code_simp

text \<open>For every other name that is not a property of the schema the predicate throws.\<close>

lemma bound_predicate_refused:
  assumes "name \<notin> set (propertyNames h)" and "name \<notin> set object_prototype_keys"
  shows "createPropertyValidator h name v =
         Inl (PropertyAccessError name (databaseId (schema_definition h)))"
  using assms
  by (simp add: createPropertyValidator_def getProperty_def hasProperty_def js_in_def
      propertyNames_def)

section \<open>The model on the scenarios of the repository's tests\<close>

text \<open>
  The basic schema: construction succeeds, the names come in declared order, the bound
  predicate accepts 30 and rejects a string for \<open>Age\<close>, and the title property is
  \<open>Name\<close>.
\<close>

lemma basic_schema_scenario:
  "new_TypedSchema 0 basic_schema = Inr basic_handle \<and>
   propertyNames basic_handle = [''Name'', ''Age'', ''Active''] \<and>
   createPropertyValidator basic_handle ''Age'' (JNum (Finite 30)) = Inr True \<and>
   createPropertyValidator basic_handle ''Age'' (JStr ''thirty'') = Inr False \<and>
   getPropertiesByType basic_handle ''title'' = [(''Name'', Title)] \<and>
   getTitleProperty basic_handle = Inr (''Name'', Title) \<and>
   getProperty basic_handle ''Missing'' =
     Inl (PropertyAccessError ''Missing'' ''12345678-1234-5678-9abc-123456789abc'') \<and>
   hasProperty basic_handle ''Missing'' = False"
  by code_simp

text \<open>Membership in the options of a \<open>select\<close> property.\<close>

lemma selection_scenario:
  "validatePropertyValue sample_url_protocol (JStr ''A'') (Select [''A'', ''B'']) ''Status'' = Inr () \<and>
   validatePropertyValue sample_url_protocol (JStr ''B'') (Select [''A'', ''B'']) ''Status'' = Inr () \<and>
   validatePropertyValue sample_url_protocol (JStr ''C'') (Select [''A'', ''B'']) ''Status'' =
     Inl (SelectionValidationError ''Status'' (JStr ''C'') [''A'', ''B''])"
  by code_simp

text \<open>The bounds on the number of properties: 20 are accepted, 21 are not.\<close>

lemma cardinality_scenario:
  "length (properties (numbered_schema 20)) = 20 \<and>
   new_TypedSchema 0 (numbered_schema 20) =
     Inr \<lparr>schema_definition = numbered_schema 20, createdAt = 0, lastQueryDuration = Finite 0\<rparr> \<and>
   length (properties (numbered_schema 21)) = 21 \<and>
   new_TypedSchema 0 (numbered_schema 21) =
     Inl (SchemaValidationError ''schema'' ''valid schema definition''
            (js_of_schema (numbered_schema 21)))"
  by code_simp

text \<open>E-mail addresses, URLs and user references in \<open>validatePropertyValue\<close>.\<close>

lemma contact_scenario:
  "validatePropertyValue sample_url_protocol (JStr ''user@example.com'') Email ''ContactEmail'' = Inr () \<and>
   validatePropertyValue sample_url_protocol (JStr ''not-an-email'') Email ''ContactEmail'' =
     Inl (PropertyValidationError ''ContactEmail'' (JStr ''not-an-email'') ''valid email address'') \<and>
   validatePropertyValue sample_url_protocol (JStr ''https://company.com'') Url ''Website'' = Inr () \<and>
   validatePropertyValue sample_url_protocol (JStr ''ftp://x.com'') Url ''Website'' =
     Inl (PropertyValidationError ''Website'' (JStr ''ftp://x.com'') ''valid URL'') \<and>
   validatePropertyValue sample_url_protocol (JArray [validUser]) People ''TeamMembers'' = Inr () \<and>
   validatePropertyValue sample_url_protocol (JArray []) People ''TeamMembers'' = Inr ()"
  by code_simp

text \<open>The structural validator on the contact schema and on the literals above.\<close>

lemma structure_scenario:
  "validateSchemaStructure strings_only (js_of_schema contactSchema) DEFAULT_VALIDATION_CONFIG =
     Inr \<lparr>isValid = True, errors = []\<rparr> \<and>
   validateSchemaStructure strings_only (js_of_schema digit_name_schema) DEFAULT_VALIDATION_CONFIG =
     Inr \<lparr>isValid = False,
          errors = [''Property name must start with a letter'',
                    ''Property name can only contain letters, numbers, underscores, and spaces'']\<rparr> \<and>
   validateSchemaStructure strings_only (js_of_schema blank_option_schema) DEFAULT_VALIDATION_CONFIG =
     Inr \<lparr>isValid = False,
          errors = [''Property '' @ quote ''Status'' @ '': Options cannot be empty strings'']\<rparr> \<and>
   validateSchemaStructure strings_only (js_of_schema no_title_schema) DEFAULT_VALIDATION_CONFIG =
     Inr \<lparr>isValid = False, errors = [''Schema must have exactly one title property'']\<rparr> \<and>
   validateSchemaStructure strings_only (js_of_schema two_titles_schema) DEFAULT_VALIDATION_CONFIG =
     Inr \<lparr>isValid = False, errors = [''Schema cannot have multiple title properties'']\<rparr>"
  by code_simp

text \<open>The throwing wrapper \<open>validateSchema\<close> and the codes of the errors.\<close>

lemma validateSchema_scenario:
  "validateSchema strings_only (js_of_schema contactSchema) DEFAULT_VALIDATION_CONFIG = Inr () \<and>
   validateSchema strings_only (js_of_schema no_title_schema) DEFAULT_VALIDATION_CONFIG =
     Inl (SchemaValidationError ''schema'' ''valid schema structure''
            (JStr ''Validation failed: Schema must have exactly one title property'')) \<and>
   validateSchema strings_only (JObject []) DEFAULT_VALIDATION_CONFIG =
     Inl (SchemaValidationError ''schema'' ''valid schema structure''
            (JStr (''Validation failed: Database ID is required and must be a string, '' @
                   ''Properties are required and must be an object''))) \<and>
   code (SchemaValidationError ''schema'' ''valid schema structure'' JUndefined) =
     ''SCHEMA_VALIDATION_ERROR'' \<and>
   createTypedSchema 0 basic_schema = Inr basic_handle"
  by code_simp

text \<open>
  On a handle constructed from a literal none of whose property names is passed over by
  the record schema, the re-check of \<open>getTitleProperty\<close> cannot fail: it returns the
  one title property. On the handle of the literal with the title properties \<open>Name\<close>
  and \<open>prototype\<close> it throws.
\<close>

lemma getTitleProperty_of_new:
  assumes "new_TypedSchema now defn = Inr h"
    and unreserved: "\<forall>name \<in> set (map fst (properties defn)). name \<notin> set blocked_keys"
  shows "\<exists>name. getTitleProperty h = Inr (name, Title) \<and> (name, Title) \<in> set (properties defn)"
proof -
  from assms(1) have ok: "schemaDefinitionSchema defn" and sd: "schema_definition h = defn"
    by (auto dest: accepted_of_new handle_of_new)
  have all: "record_entries (properties defn) = properties defn"
    using unreserved by (rule record_entries_unreserved)
  have same: "filter (\<lambda>(name, d). type_tag d = ''title'') ps = filter (\<lambda>(name, d). d = Title) ps"
    for ps :: "(string \<times> PropertyDefinition) list"
    by (induction ps) (auto simp: type_tag_title)
  from ok have "length (filter (\<lambda>(name, d). d = Title) (properties defn)) = 1"
    unfolding schemaDefinitionSchema_def all title_count_values by simp
  then obtain e where e: "filter (\<lambda>(name, d). d = Title) (properties defn) = [e]"
    by (auto simp: length_Suc_conv)
  then have "e \<in> set (filter (\<lambda>(name, d). d = Title) (properties defn))"
    by simp
  then have "snd e = Title" and "e \<in> set (properties defn)"
    by auto
  with e sd same [of "properties defn"] show ?thesis
    by (cases e) (auto simp: getTitleProperty_def)
qed

lemma getTitleProperty_two_titles:
  "getTitleProperty
     \<lparr>schema_definition = prototype_title_schema, createdAt = 0, lastQueryDuration = Finite 0\<rparr> =
   Inl (SchemaValidationError ''titleProperty'' ''exactly one title property'' (JStr ''2 found''))"
  by code_simp

text \<open>
  Outside the inputs of C8 the structural validator can throw: an invalid number format
  is interpolated into its message, and the conversion of a symbol to a string throws
  \<open>TypeError\<close>.
\<close>

lemma validateSchemaStructure_symbol_format:
  "strings_only JSymbol = Inl TypeError \<and>
   validateSchemaStructure strings_only symbol_format_schema DEFAULT_VALIDATION_CONFIG =
     Inl TypeError"
  by code_simp

end
